theory Spec2Isabelle
  imports Main "HOL-Library.AList"
begin

section \<open>Go run-time values the program works with\<close>

text \<open>
  The program is \<^verbatim>\<open>testable.go\<close>: it parses a Go package, extracts the shapes of its
  structs and renders an interface package and a wrapper package through text templates.
  Go strings are byte strings and are modelled as \<^typ>\<open>string\<close>; a \<^verbatim>\<open>token.Pos\<close> is an
  \<^typ>\<open>int\<close>.

  An \<^verbatim>\<open>error\<close> value is tagged with the library call that produced it and carries its message
  (what \<^verbatim>\<open>err.Error()\<close> returns). \<open>Panic\<close> is not an error value: it stands for a run-time
  panic (an index or a slice bound out of range), which crashes the program unless the
  template engine recovers it.
\<close>

datatype error =
    ParseError string      \<comment> \<open>\<^verbatim>\<open>parser.ParseDir\<close>, \<^verbatim>\<open>parser.ParseFile\<close>\<close>
  | FormatError string     \<comment> \<open>\<^verbatim>\<open>format.Source\<close>\<close>
  | TemplateError string   \<comment> \<open>\<^verbatim>\<open>text/template\<close>\<close>
  | PathError string       \<comment> \<open>\<^verbatim>\<open>filepath.Abs\<close>\<close>
  | WriteError string      \<comment> \<open>\<^verbatim>\<open>os.MkdirAll\<close>, \<^verbatim>\<open>ioutil.WriteFile\<close>\<close>
  | Panic string

fun errorMsg :: "error \<Rightarrow> string" where
  "errorMsg (ParseError m) = m"
| "errorMsg (FormatError m) = m"
| "errorMsg (TemplateError m) = m"
| "errorMsg (PathError m) = m"
| "errorMsg (WriteError m) = m"
| "errorMsg (Panic m) = m"

fun isPanic :: "error \<Rightarrow> bool" where
  "isPanic (Panic m) = True"
| "isPanic e = False"

subsection \<open>The functions of package \<^verbatim>\<open>strings\<close> that are called\<close>

text \<open>\<^verbatim>\<open>strings.Split(s, sep)\<close> for a separator of one byte: \<open>n\<close> separators give \<open>n + 1\<close> pieces.\<close>

fun Split :: "string \<Rightarrow> char \<Rightarrow> string list" where
  "Split [] sep = [[]]"
| "Split (c # cs) sep =
     (if c = sep then [] # Split cs sep
      else (case Split cs sep of [] \<Rightarrow> [[c]] | t # ts \<Rightarrow> (c # t) # ts))"

definition HasPrefix :: "string \<Rightarrow> string \<Rightarrow> bool" where
  "HasPrefix s p = (take (length p) s = p)"

definition HasSuffix :: "string \<Rightarrow> string \<Rightarrow> bool" where
  "HasSuffix s suf = (length suf \<le> length s \<and> drop (length s - length suf) s = suf)"

definition TrimPrefix :: "string \<Rightarrow> string \<Rightarrow> string" where
  "TrimPrefix s p = (if HasPrefix s p then drop (length p) s else s)"

fun Contains :: "string \<Rightarrow> string \<Rightarrow> bool" where
  "Contains [] sub = (sub = [])"
| "Contains (c # cs) sub = (HasPrefix (c # cs) sub \<or> Contains cs sub)"

text \<open>
  A byte slice, as \<^verbatim>\<open>ioutil.ReadFile\<close> returns it: the bytes up to its length
  (\<open>Contents\<close>, which is what \<^verbatim>\<open>string(src)\<close> converts) and the bytes of the underlying
  array between its length and its capacity (\<open>Spare\<close>). The slice expression
  \<^verbatim>\<open>src[lo:hi]\<close> on it panics unless \<open>0 \<le> lo \<le> hi \<le> cap(src)\<close>: the upper bound of a
  slice of a slice is the capacity, not the length. The index expression \<^verbatim>\<open>xs[i]\<close> panics
  out of range.
\<close>

record bytes =
  Contents :: string
  Spare :: string

definition slice :: "bytes \<Rightarrow> int \<Rightarrow> int \<Rightarrow> error + string" where
  "slice src lo hi =
     (if 0 \<le> lo \<and> lo \<le> hi \<and> hi \<le> int (length (Contents src @ Spare src))
      then Inr (take (nat (hi - lo)) (drop (nat lo) (Contents src @ Spare src)))
      else Inl (Panic ''slice bounds out of range''))"

definition index :: "'a list \<Rightarrow> int \<Rightarrow> error + 'a" where
  "index xs i =
     (if 0 \<le> i \<and> i < int (length xs) then Inr (xs ! nat i)
      else Inl (Panic ''index out of range''))"

subsection \<open>Maps and the order of \<^verbatim>\<open>range\<close>\<close>

text \<open>
  A Go map with string keys is an association list with distinct keys: \<open>map_of\<close> reads it
  and \<open>AList.update\<close> is the assignment \<^verbatim>\<open>m[k] = v\<close>.

  Go does not fix the order in which \<^verbatim>\<open>range\<close> visits a map, and it differs from one
  run to the next. The order is therefore a parameter of the model: a \<open>schedule\<close> proposes,
  for each \<^verbatim>\<open>range\<close> statement of the program (\<open>site\<close>), the package it runs for and the keys
  of the map, the order of the visit. \<open>rangeKeys\<close> takes the proposal when it is a
  permutation of the keys, so every schedule describes a possible run and every run has a
  schedule.
\<close>

type_synonym 'v gomap = "(string \<times> 'v) list"

datatype site =
    GenCodeSubpkgs | GetSubpackagesSubpkgs
  | GetStructsMethods | GetStructsFields | GetStructsStructMap
  | GetMethodsFiles | GetFieldsFiles
  | MainIfacePkgs | MainImplPkgs

type_synonym schedule = "site \<Rightarrow> string \<Rightarrow> string list \<Rightarrow> string list"

definition rangeKeys :: "schedule \<Rightarrow> site \<Rightarrow> string \<Rightarrow> string list \<Rightarrow> string list" where
  "rangeKeys sched st ctx ks =
     (let ks' = sched st ctx ks
      in if distinct ks' \<and> set ks' \<subseteq> set ks \<and> set ks \<subseteq> set ks' then ks' else ks)"

definition rangeMap :: "schedule \<Rightarrow> site \<Rightarrow> string \<Rightarrow> 'v gomap \<Rightarrow> (string \<times> 'v) list" where
  "rangeMap sched st ctx m =
     concat (map (\<lambda>k. case map_of m k of None \<Rightarrow> [] | Some v \<Rightarrow> [(k, v)])
                 (rangeKeys sched st ctx (map fst m)))"

section \<open>The parsed package\<close>

text \<open>
  The part of \<^verbatim>\<open>go/ast\<close> the program reads. An \<^verbatim>\<open>ast.Field\<close> is one declaration of a
  field list (\<^verbatim>\<open>A, B int\<close> is one \<^verbatim>\<open>ast.Field\<close> with two names); of its type only the
  positions \<^verbatim>\<open>Type.Pos()\<close> and \<^verbatim>\<open>Type.End()\<close> are used. Of a file the program reads the
  top-level declarations and, through \<^verbatim>\<open>ast.Inspect\<close>, every \<^verbatim>\<open>*ast.StructType\<close> node:
  \<open>StructTypes\<close> lists them in the order of the depth-first visit. Positions are those of
  the one \<^verbatim>\<open>token.FileSet\<close> that \<^verbatim>\<open>parser.ParseDir\<close> fills with all the files of the
  directory: the first file it parses has base 1, so that a position in it is the offset
  plus 1, and every later file has a base beyond the sizes of the files before it.
\<close>

record ast_Field =
  Names :: "string list"
  Type_Pos :: int
  Type_End :: int

record ast_FuncDecl =
  Recv :: "ast_Field list option"
  FuncDecl_Name :: string
  Params :: "ast_Field list"
  Results :: "ast_Field list option"

datatype ast_Decl = FuncDecl ast_FuncDecl | OtherDecl

record ast_StructType =
  StructType_Pos :: int
  StructType_Fields :: "ast_Field list"

record ast_File =
  File_Name :: string   \<comment> \<open>the package clause, \<^verbatim>\<open>src.Name.Name\<close>\<close>
  Decls :: "ast_Decl list"
  StructTypes :: "ast_StructType list"

record ast_Package =
  ast_Package_Name :: string
  Files :: "ast_File gomap"

text \<open>
  A \<^verbatim>\<open>token.FileSet\<close> that holds one file at base 1: the size of the file, the offsets
  at which its lines start, and the alternative line numbers that \<^verbatim>\<open>//line\<close> and
  \<^verbatim>\<open>/*line\<close> directives set, each with the offset from which it holds, in the order of
  the offsets. \<^verbatim>\<open>fset.Position(p).Line\<close> is 0 when \<open>p\<close> is \<^verbatim>\<open>token.NoPos\<close> or lies outside
  the file. Otherwise the line of the offset \<open>p - 1\<close> is the number of line starts up to
  it, and when a directive holds at the offset, the line is the one the last such
  directive sets plus the distance to the line where that directive was recorded.
\<close>

record FileSet =
  FileSet_Size :: int
  FileSet_Lines :: "int list"
  FileSet_Infos :: "(int \<times> int) list"

definition lineNumber :: "int list \<Rightarrow> int \<Rightarrow> int" where
  "lineNumber starts offset = int (length (filter (\<lambda>l. l \<le> offset) starts))"

definition Position_Line :: "FileSet \<Rightarrow> int \<Rightarrow> int" where
  "Position_Line fset p =
     (if p \<noteq> 0 \<and> 1 \<le> p \<and> p \<le> 1 + FileSet_Size fset then
        (let offset = p - 1;
             line = lineNumber (FileSet_Lines fset) offset
         in case filter (\<lambda>alt. fst alt \<le> offset) (FileSet_Infos fset) of
              [] \<Rightarrow> line
            | a # as \<Rightarrow>
                (let alt = last (a # as)
                 in snd alt + (line - lineNumber (FileSet_Lines fset) (fst alt))))
      else 0)"

text \<open>
  The file set that the parser builds for a text that holds no line directive: a line
  starts at offset 0 and after every newline that is not the last byte, and there is no
  alternative line number.
\<close>

fun lineStarts :: "int \<Rightarrow> string \<Rightarrow> int list" where
  "lineStarts off [] = []"
| "lineStarts off (c # cs) =
     (if c = CHR 0x0A \<and> cs \<noteq> [] then (off + 1) # lineStarts (off + 1) cs
      else lineStarts (off + 1) cs)"

definition plainFileSet :: "string \<Rightarrow> FileSet" where
  "plainFileSet content =
     \<lparr>FileSet_Size = int (length content), FileSet_Lines = 0 # lineStarts 0 content,
      FileSet_Infos = []\<rparr>"


section \<open>The environment\<close>

text \<open>
  Everything the program asks of the operating system and of libraries whose result is not
  a function of the program's own data: the \<^verbatim>\<open>GOPATH\<close> variable, \<^verbatim>\<open>path.Join\<close>, the
  directory listing and the parser behind \<^verbatim>\<open>parser.ParseDir\<close> (\<open>ParseFileAST\<close>, by file
  name), the second parse of a file in \<^verbatim>\<open>getFields\<close> (\<open>ParseFile\<close>, of which only the file
  set and the error are used), \<^verbatim>\<open>ioutil.ReadFile\<close>, \<^verbatim>\<open>format.Source\<close>, \<^verbatim>\<open>filepath.Abs\<close>,
  \<^verbatim>\<open>os.MkdirAll\<close>, \<^verbatim>\<open>ioutil.WriteFile\<close>, what \<^verbatim>\<open>fmt.Fprintf(w, format)\<close> writes for a
  format string without operands, and, for a name that begins with a byte outside ASCII,
  whether \<^verbatim>\<open>unicode.IsUpper\<close> holds of its first rune. A failing call answers \<open>Inl\<close> (or
  \<open>Some\<close>) with the message of its error.
\<close>

record env =
  GOPATH :: string
  pathJoin :: "string list \<Rightarrow> string"
  ReadDir :: "string \<Rightarrow> string + (string \<times> bool) list"
  ParseFileAST :: "string \<Rightarrow> string + ast_File"
  ParseFile :: "string \<Rightarrow> string + FileSet"
  ReadFile :: "string \<Rightarrow> string + bytes"
  formatSource :: "string \<Rightarrow> string + string"
  filepathAbs :: "string \<Rightarrow> string + string"
  MkdirAll :: "string \<Rightarrow> string option"
  WriteFile :: "string \<Rightarrow> string \<Rightarrow> string option"
  Fprintf :: "string \<Rightarrow> string"
  unicodeIsUpper :: "string \<Rightarrow> bool"

text \<open>
  \<^verbatim>\<open>ast.IsExported(name)\<close>: the first rune of the name is an upper-case letter. Of the
  ASCII characters these are \<open>A\<close> to \<open>Z\<close>; the empty name has no such rune.
\<close>

definition IsExported :: "env \<Rightarrow> string \<Rightarrow> bool" where
  "IsExported E name =
     (case name of
        [] \<Rightarrow> False
      | c # cs \<Rightarrow>
          if of_char c < (128::nat) then (65::nat) \<le> of_char c \<and> of_char c \<le> (90::nat)
          else unicodeIsUpper E name)"

section \<open>The extracted shapes\<close>

text \<open>
  The structs \<^verbatim>\<open>Field\<close>, \<^verbatim>\<open>Method\<close>, \<^verbatim>\<open>Struct\<close> and \<^verbatim>\<open>Package\<close> of the program.
  \<^verbatim>\<open>Struct.Parent\<close> is never assigned or read and \<^verbatim>\<open>Package.Functions\<close> is always empty
  (\<^verbatim>\<open>getFunctions\<close> returns an empty slice), so neither has a field here.
\<close>

record Field =
  Field_Name :: string
  Field_Type :: string

record Method =
  Method_Name :: string
  Method_Params :: "Field list"
  Method_Results :: "Field list"

record Struct =
  Struct_Name :: string
  Struct_Methods :: "Method list"
  Struct_Fields :: "Field list"

record Package =
  Package_Name :: string
  Package_Structs :: "Struct list"
  Package_ImportPath :: string

section \<open>Source parser\<close>

text \<open>
  \<^verbatim>\<open>parser.ParseDir(fset, path, filter, mode)\<close>: every entry of the directory that is not a
  directory, ends in \<^verbatim>\<open>.go\<close> and passes the filter is parsed and put under its full name
  into the package its package clause names; the first parse error is kept and the loop
  goes on.
\<close>

definition ParseDir_entry ::
  "env \<Rightarrow> string \<Rightarrow> (string \<Rightarrow> bool) \<Rightarrow> string \<times> bool
     \<Rightarrow> ast_Package gomap \<times> string option \<Rightarrow> ast_Package gomap \<times> string option" where
  "ParseDir_entry E path filt d acc =
     (case acc of (pkgs, first) \<Rightarrow>
      if snd d \<or> \<not> HasSuffix (fst d) ''.go'' then (pkgs, first)
      else if \<not> filt (fst d) then (pkgs, first)
      else
        (let filename = pathJoin E [path, fst d] in
         (case ParseFileAST E filename of
            Inl err \<Rightarrow> (pkgs, if first = None then Some err else first)
          | Inr src \<Rightarrow>
             (let name = File_Name src;
                  pkg = (case map_of pkgs name of
                           None \<Rightarrow> \<lparr>ast_Package_Name = name, Files = []\<rparr>
                         | Some pkg \<Rightarrow> pkg)
              in (AList.update name
                    (pkg\<lparr>Files := AList.update filename src (Files pkg)\<rparr>) pkgs,
                  first)))))"

fun ParseDir_loop ::
  "env \<Rightarrow> string \<Rightarrow> (string \<Rightarrow> bool) \<Rightarrow> (string \<times> bool) list
     \<Rightarrow> ast_Package gomap \<times> string option \<Rightarrow> ast_Package gomap \<times> string option" where
  "ParseDir_loop E path filt [] acc = acc"
| "ParseDir_loop E path filt (d # ds) acc =
     ParseDir_loop E path filt ds (ParseDir_entry E path filt d acc)"

definition ParseDir ::
  "env \<Rightarrow> string \<Rightarrow> (string \<Rightarrow> bool) \<Rightarrow> ast_Package gomap \<times> string option" where
  "ParseDir E path filt =
     (case ReadDir E path of
        Inl err \<Rightarrow> ([], Some err)
      | Inr list \<Rightarrow> ParseDir_loop E path filt list ([], None))"

definition parsePkg :: "env \<Rightarrow> string \<Rightarrow> ast_Package gomap \<times> string option" where
  "parsePkg E pkg =
     ParseDir E (pathJoin E [GOPATH E, ''src'', pkg]) (\<lambda>name. \<not> Contains name ''test'')"

section \<open>Shape extractor\<close>

definition getStructName :: "bytes \<Rightarrow> FileSet \<Rightarrow> ast_StructType \<Rightarrow> error + string" where
  "getStructName src fset st =
     (let lines = Split (Contents src) (CHR 0x0A) in
      case index lines (Position_Line fset (StructType_Pos st) - 1) of
        Inl e \<Rightarrow> Inl e
      | Inr line \<Rightarrow> index (Split line (CHR '' '')) 1)"

fun getMethodFields :: "bytes \<Rightarrow> ast_Field list \<Rightarrow> error + Field list" where
  "getMethodFields src [] = Inr []"
| "getMethodFields src (astField # rest) =
     (let name = (if length (Names astField) > 0 then Names astField ! 0 else [])
      in case slice src (Type_Pos astField - 1) (Type_End astField - 1) of
           Inl e \<Rightarrow> Inl e
         | Inr typ \<Rightarrow>
             (case getMethodFields src rest of
                Inl e \<Rightarrow> Inl e
              | Inr flds \<Rightarrow> Inr (\<lparr>Field_Name = name, Field_Type = typ\<rparr> # flds)))"

text \<open>
  \<^verbatim>\<open>maker.GetReceiverTypeName(src, decl)\<close> of the library
  \<^verbatim>\<open>github.com/vburenin/ifacemaker\<close>: for a function declaration with a receiver it returns
  the source text of the type of the first receiver, without a leading \<^verbatim>\<open>*\<close>, and the
  declaration; for every other declaration the empty string and \<^verbatim>\<open>nil\<close>.
\<close>

definition GetReceiverTypeName ::
  "bytes \<Rightarrow> ast_Decl \<Rightarrow> error + string \<times> ast_FuncDecl option" where
  "GetReceiverTypeName src decl =
     (case decl of
        OtherDecl \<Rightarrow> Inr ([], None)
      | FuncDecl fd \<Rightarrow>
          (case Recv fd of
             None \<Rightarrow> Inr ([], None)
           | Some recvList \<Rightarrow>
               (case index recvList 0 of
                  Inl e \<Rightarrow> Inl e
                | Inr r \<Rightarrow>
                    (case slice src (Type_Pos r - 1) (Type_End r - 1) of
                       Inl e \<Rightarrow> Inl e
                     | Inr st \<Rightarrow>
                         Inr (if length st > 0 \<and> st ! 0 = CHR ''*'' then drop 1 st else st,
                              Some fd)))))"

text \<open>The body of the inner loop of \<^verbatim>\<open>getMethods\<close>, once the file has been read.\<close>

definition getMethods_decl ::
  "env \<Rightarrow> bytes \<Rightarrow> ast_Decl \<Rightarrow> Method list gomap \<Rightarrow> error + Method list gomap" where
  "getMethods_decl E src decl methodMap =
     (case GetReceiverTypeName src decl of
        Inl e \<Rightarrow> Inl e
      | Inr (a, None) \<Rightarrow> Inr methodMap
      | Inr (a, Some fd) \<Rightarrow>
          if IsExported E (FuncDecl_Name fd) then
            let methods = (case map_of methodMap a of None \<Rightarrow> [] | Some ms \<Rightarrow> ms) in
            case getMethodFields src (Params fd) of
              Inl e \<Rightarrow> Inl e
            | Inr params \<Rightarrow>
                (case (case Results fd of
                         None \<Rightarrow> Inr []
                       | Some rs \<Rightarrow> getMethodFields src rs) of
                   Inl e \<Rightarrow> Inl e
                 | Inr results \<Rightarrow>
                     Inr (AList.update a
                            (methods @ [\<lparr>Method_Name = FuncDecl_Name fd,
                                          Method_Params = params,
                                          Method_Results = results\<rparr>])
                            methodMap))
          else Inr methodMap)"

fun getMethods_decls ::
  "env \<Rightarrow> string \<Rightarrow> ast_Decl list \<Rightarrow> Method list gomap \<Rightarrow> error + Method list gomap" where
  "getMethods_decls E fileName [] methodMap = Inr methodMap"
| "getMethods_decls E fileName (decl # decls) methodMap =
     (case ReadFile E fileName of
        Inl err \<Rightarrow> getMethods_decls E fileName decls methodMap
      | Inr src \<Rightarrow>
          (case getMethods_decl E src decl methodMap of
             Inl e \<Rightarrow> Inl e
           | Inr methodMap' \<Rightarrow> getMethods_decls E fileName decls methodMap'))"

fun getMethods_files ::
  "env \<Rightarrow> (string \<times> ast_File) list \<Rightarrow> Method list gomap \<Rightarrow> error + Method list gomap" where
  "getMethods_files E [] methodMap = Inr methodMap"
| "getMethods_files E ((fileName, astFile) # files) methodMap =
     (case getMethods_decls E fileName (Decls astFile) methodMap of
        Inl e \<Rightarrow> Inl e
      | Inr methodMap' \<Rightarrow> getMethods_files E files methodMap')"

definition getMethods :: "env \<Rightarrow> schedule \<Rightarrow> ast_Package \<Rightarrow> error + Method list gomap" where
  "getMethods E sched pkg =
     getMethods_files E
       (rangeMap sched GetMethodsFiles (ast_Package_Name pkg) (Files pkg)) []"

text \<open>The loop over \<^verbatim>\<open>st.Fields.List\<close> in \<^verbatim>\<open>getFields\<close>.\<close>

fun getFields_exported :: "env \<Rightarrow> bytes \<Rightarrow> ast_Field list \<Rightarrow> error + Field list" where
  "getFields_exported E src [] = Inr []"
| "getFields_exported E src (astField # rest) =
     (if length (Names astField) > 0 \<and> IsExported E (Names astField ! 0) then
        case slice src (Type_Pos astField - 1) (Type_End astField - 1) of
          Inl e \<Rightarrow> Inl e
        | Inr typ \<Rightarrow>
            (case getFields_exported E src rest of
               Inl e \<Rightarrow> Inl e
             | Inr exportedFields \<Rightarrow>
                 Inr (\<lparr>Field_Name = Names astField ! 0, Field_Type = typ\<rparr> # exportedFields))
      else getFields_exported E src rest)"

text \<open>The function given to \<^verbatim>\<open>ast.Inspect\<close>, at one \<^verbatim>\<open>*ast.StructType\<close> node.\<close>

definition getFields_node ::
  "env \<Rightarrow> bytes \<Rightarrow> FileSet \<Rightarrow> ast_StructType \<Rightarrow> Field list gomap
     \<Rightarrow> error + Field list gomap" where
  "getFields_node E src fset st fieldMap =
     (case getStructName src fset st of
        Inl e \<Rightarrow> Inl e
      | Inr structName \<Rightarrow>
          if IsExported E structName then
            case getFields_exported E src (StructType_Fields st) of
              Inl e \<Rightarrow> Inl e
            | Inr exportedFields \<Rightarrow> Inr (AList.update structName exportedFields fieldMap)
          else Inr fieldMap)"

fun getFields_inspect ::
  "env \<Rightarrow> bytes \<Rightarrow> FileSet \<Rightarrow> ast_StructType list \<Rightarrow> Field list gomap
     \<Rightarrow> error + Field list gomap" where
  "getFields_inspect E src fset [] fieldMap = Inr fieldMap"
| "getFields_inspect E src fset (st # sts) fieldMap =
     (case getFields_node E src fset st fieldMap of
        Inl e \<Rightarrow> Inl e
      | Inr fieldMap' \<Rightarrow> getFields_inspect E src fset sts fieldMap')"

fun getFields_files ::
  "env \<Rightarrow> (string \<times> ast_File) list \<Rightarrow> Field list gomap \<Rightarrow> error + Field list gomap" where
  "getFields_files E [] fieldMap = Inr fieldMap"
| "getFields_files E ((fileName, astFile) # files) fieldMap =
     (case ReadFile E fileName of
        Inl err \<Rightarrow> getFields_files E files fieldMap
      | Inr src \<Rightarrow>
          (case ParseFile E fileName of
             Inl err \<Rightarrow> Inl (ParseError err)
           | Inr fset \<Rightarrow>
               (case getFields_inspect E src fset (StructTypes astFile) fieldMap of
                  Inl e \<Rightarrow> Inl e
                | Inr fieldMap' \<Rightarrow> getFields_files E files fieldMap')))"

definition getFields :: "env \<Rightarrow> schedule \<Rightarrow> ast_Package \<Rightarrow> error + Field list gomap" where
  "getFields E sched pkg =
     getFields_files E
       (rangeMap sched GetFieldsFiles (ast_Package_Name pkg) (Files pkg)) []"

text \<open>
  \<^verbatim>\<open>getStructs\<close>. The map holds pointers: \<^verbatim>\<open>st.Fields = stfields\<close> changes the struct the
  map holds under \<open>stName\<close>, and a struct made in the branch \<^verbatim>\<open>!ok\<close> is assigned to the
  local variable only, so the map is left as it was.
\<close>

definition getStructs :: "env \<Rightarrow> schedule \<Rightarrow> ast_Package \<Rightarrow> error + Struct list" where
  "getStructs E sched pkg =
     (case getMethods E sched pkg of
        Inl e \<Rightarrow> Inl e
      | Inr methods \<Rightarrow>
          (case getFields E sched pkg of
             Inl e \<Rightarrow> Inl e
           | Inr flds \<Rightarrow>
               let structMap =
                     fold (\<lambda>(st, stmethods).
                             AList.update st
                               \<lparr>Struct_Name = st, Struct_Methods = stmethods, Struct_Fields = []\<rparr>)
                          (rangeMap sched GetStructsMethods (ast_Package_Name pkg) methods) [];
                   structMap' =
                     fold (\<lambda>(stName, stfields) m.
                             case map_of m stName of
                               None \<Rightarrow> m
                             | Some st \<Rightarrow> AList.update stName (st\<lparr>Struct_Fields := stfields\<rparr>) m)
                          (rangeMap sched GetStructsFields (ast_Package_Name pkg) flds)
                          structMap
               in Inr (map snd
                         (rangeMap sched GetStructsStructMap (ast_Package_Name pkg) structMap'))))"

fun getSubpackages_loop ::
  "env \<Rightarrow> schedule \<Rightarrow> string \<Rightarrow> (string \<times> ast_Package) list \<Rightarrow> Package gomap
     \<Rightarrow> error + Package gomap" where
  "getSubpackages_loop E sched pkg [] subpkgMap = Inr subpkgMap"
| "getSubpackages_loop E sched pkg ((subpkgName, subpkg) # rest) subpkgMap =
     (case getStructs E sched subpkg of
        Inl e \<Rightarrow> Inl e
      | Inr structs \<Rightarrow>
          getSubpackages_loop E sched pkg rest
            (AList.update subpkgName
               \<lparr>Package_Name = subpkgName, Package_Structs = structs, Package_ImportPath = pkg\<rparr>
               subpkgMap))"

definition getSubpackages :: "env \<Rightarrow> schedule \<Rightarrow> string \<Rightarrow> error + Package gomap" where
  "getSubpackages E sched pkg =
     (case parsePkg E pkg of
        (subpkgs, Some err) \<Rightarrow> Inl (ParseError err)
      | (subpkgs, None) \<Rightarrow>
          getSubpackages_loop E sched pkg
            (rangeMap sched GetSubpackagesSubpkgs [] subpkgs) [])"

section \<open>The template engine\<close>

text \<open>
  The fragment of \<^verbatim>\<open>text/template\<close> the four templates of the program use: literal text,
  an action that prints a string, and \<^verbatim>\<open>{{ range $x := e }} ... {{ end }}\<close>. An
  expression is the dot, the root \<^verbatim>\<open>$\<close>, a variable, a field of a value, or a call of a
  function of the \<^verbatim>\<open>FuncMap\<close> with one argument. No template has a trim marker, so the
  text between two actions is copied as it stands, newlines included.

  A \<open>tval\<close> is a Go value handed to a template, tagged with its Go type as
  \<^verbatim>\<open>reflect.Value\<close> is; \<open>fieldOf\<close> finds a field by name and \<open>elems\<close> lists what
  \<^verbatim>\<open>range\<close> visits. The three record types below are the anonymous structs that
  \<^verbatim>\<open>buildImpls\<close> and \<^verbatim>\<open>genCode\<close> pass to \<^verbatim>\<open>Execute\<close>.
\<close>

record implData =
  implData_PkgName :: string
  implData_StructName :: string
  implData_Fields :: "Field list"
  implData_Methods :: "Method list"

record ifacePkgData =
  ifacePkgData_Name :: string
  ifacePkgData_Interfaces :: "string list"

record implPkgData =
  implPkgData_Name :: string
  implPkgData_Implementations :: "string list"
  implPkgData_ImportPath :: string
  implPkgData_BasePkg :: string

datatype tval =
    VString string | VStrings "string list"
  | VField Field | VFields "Field list"
  | VMethod Method | VMethods "Method list"
  | VStruct Struct | VImplData implData
  | VIfacePkgData ifacePkgData | VImplPkgData implPkgData

datatype texpr = Dot | Root | Var string | Fld texpr string | Call string texpr

datatype node = Text string | Action texpr | Range string texpr "node list"

type_synonym FuncMap = "(string \<times> (tval \<Rightarrow> error + tval)) list"

definition noField :: "string \<Rightarrow> error + tval" where
  "noField n = Inl (TemplateError (''no field '' @ n))"

fun fieldOf :: "tval \<Rightarrow> string \<Rightarrow> error + tval" where
  "fieldOf (VField f) n =
     (if n = ''Name'' then Inr (VString (Field_Name f))
      else if n = ''Type'' then Inr (VString (Field_Type f))
      else noField n)"
| "fieldOf (VMethod m) n =
     (if n = ''Name'' then Inr (VString (Method_Name m))
      else if n = ''Params'' then Inr (VFields (Method_Params m))
      else if n = ''Results'' then Inr (VFields (Method_Results m))
      else noField n)"
| "fieldOf (VStruct st) n =
     (if n = ''Name'' then Inr (VString (Struct_Name st))
      else if n = ''Methods'' then Inr (VMethods (Struct_Methods st))
      else if n = ''Fields'' then Inr (VFields (Struct_Fields st))
      else noField n)"
| "fieldOf (VImplData d) n =
     (if n = ''PkgName'' then Inr (VString (implData_PkgName d))
      else if n = ''StructName'' then Inr (VString (implData_StructName d))
      else if n = ''Fields'' then Inr (VFields (implData_Fields d))
      else if n = ''Methods'' then Inr (VMethods (implData_Methods d))
      else noField n)"
| "fieldOf (VIfacePkgData d) n =
     (if n = ''Name'' then Inr (VString (ifacePkgData_Name d))
      else if n = ''Interfaces'' then Inr (VStrings (ifacePkgData_Interfaces d))
      else noField n)"
| "fieldOf (VImplPkgData d) n =
     (if n = ''Name'' then Inr (VString (implPkgData_Name d))
      else if n = ''Implementations'' then Inr (VStrings (implPkgData_Implementations d))
      else if n = ''ImportPath'' then Inr (VString (implPkgData_ImportPath d))
      else if n = ''BasePkg'' then Inr (VString (implPkgData_BasePkg d))
      else noField n)"
| "fieldOf v n = noField n"

fun elems :: "tval \<Rightarrow> tval list option" where
  "elems (VStrings xs) = Some (map VString xs)"
| "elems (VFields xs) = Some (map VField xs)"
| "elems (VMethods xs) = Some (map VMethod xs)"
| "elems v = None"

text \<open>
  A function of the \<^verbatim>\<open>FuncMap\<close> that panics does not crash the program: the engine
  recovers the panic and ends the execution with an error.
\<close>

fun eval :: "FuncMap \<Rightarrow> tval \<Rightarrow> (string \<times> tval) list \<Rightarrow> tval \<Rightarrow> texpr \<Rightarrow> error + tval" where
  "eval F root vars dot Dot = Inr dot"
| "eval F root vars dot Root = Inr root"
| "eval F root vars dot (Var x) =
     (case map_of vars x of
        None \<Rightarrow> Inl (TemplateError (''undefined variable '' @ x))
      | Some v \<Rightarrow> Inr v)"
| "eval F root vars dot (Fld e n) =
     (case eval F root vars dot e of Inl err \<Rightarrow> Inl err | Inr v \<Rightarrow> fieldOf v n)"
| "eval F root vars dot (Call f e) =
     (case map_of F f of
        None \<Rightarrow> Inl (TemplateError (''function not defined '' @ f))
      | Some g \<Rightarrow>
          (case eval F root vars dot e of
             Inl err \<Rightarrow> Inl err
           | Inr v \<Rightarrow>
               (case g v of
                  Inl err \<Rightarrow> Inl (TemplateError (''error calling '' @ f @ '': '' @ errorMsg err))
                | Inr w \<Rightarrow> Inr w)))"

text \<open>
  Execution writes into a buffer and stops at the first error: the result is the text
  written so far and the error, if any.
\<close>

fun exec ::
  "FuncMap \<Rightarrow> tval \<Rightarrow> (string \<times> tval) list \<Rightarrow> tval \<Rightarrow> node list \<Rightarrow> string \<times> error option"
and execRange ::
  "FuncMap \<Rightarrow> tval \<Rightarrow> (string \<times> tval) list \<Rightarrow> string \<Rightarrow> node list \<Rightarrow> tval list
     \<Rightarrow> string \<times> error option" where
  "exec F root vars dot [] = ([], None)"
| "exec F root vars dot (Text s # ns) =
     (case exec F root vars dot ns of (out, err) \<Rightarrow> (s @ out, err))"
| "exec F root vars dot (Action e # ns) =
     (case eval F root vars dot e of
        Inl err \<Rightarrow> ([], Some err)
      | Inr v \<Rightarrow>
          (case v of
             VString s \<Rightarrow> (case exec F root vars dot ns of (out, err) \<Rightarrow> (s @ out, err))
           | _ \<Rightarrow> ([], Some (TemplateError ''the value printed is not a string''))))"
| "exec F root vars dot (Range x e body # ns) =
     (case eval F root vars dot e of
        Inl err \<Rightarrow> ([], Some err)
      | Inr v \<Rightarrow>
          (case elems v of
             None \<Rightarrow> ([], Some (TemplateError ''range cannot iterate over the value''))
           | Some vs \<Rightarrow>
               (case execRange F root vars x body vs of
                  (out, Some err) \<Rightarrow> (out, Some err)
                | (out, None) \<Rightarrow>
                    (case exec F root vars dot ns of (out', err) \<Rightarrow> (out @ out', err)))))"
| "execRange F root vars x body [] = ([], None)"
| "execRange F root vars x body (v # vs) =
     (case exec F root ((x, v) # vars) v body of
        (out, Some err) \<Rightarrow> (out, Some err)
      | (out, None) \<Rightarrow>
          (case execRange F root vars x body vs of (out', err) \<Rightarrow> (out @ out', err)))"

definition Execute :: "FuncMap \<Rightarrow> node list \<Rightarrow> tval \<Rightarrow> string \<times> error option" where
  "Execute F tmpl data = exec F data [] data tmpl"

section \<open>Interface renderer\<close>

text \<open>The template \<^verbatim>\<open>iface\<close> of \<^verbatim>\<open>buildIfaces\<close>, as \<^verbatim>\<open>Parse\<close> reads it.\<close>

definition iface :: "node list" where
  "iface =
     [Text ''\<newline>type '', Action (Fld Dot ''Name''), Text '' interface {\<newline>'',
      Range ''field'' (Fld Dot ''Fields'')
        [Text ''\<newline>    '', Action (Fld (Var ''field'') ''Name''), Text ''() '',
         Action (Fld (Var ''field'') ''Type''), Text ''\<newline>''],
      Text ''\<newline>\<newline>'',
      Range ''method'' (Fld Dot ''Methods'')
        [Text ''\<newline>    '', Action (Fld (Var ''method'') ''Name''), Text ''('',
         Action (Call ''toList'' (Fld (Var ''method'') ''Params'')), Text '') ('',
         Action (Call ''toList'' (Fld (Var ''method'') ''Results'')), Text '')\<newline>''],
      Text ''\<newline>}\<newline>'']"

text \<open>The function \<^verbatim>\<open>toList\<close> of \<^verbatim>\<open>buildIfaces\<close>: its loop, from the values of \<open>list\<close> and \<open>prefix\<close>.\<close>

fun buildIfaces_toList_loop :: "string \<Rightarrow> string \<Rightarrow> Field list \<Rightarrow> string" where
  "buildIfaces_toList_loop list prefix [] = list"
| "buildIfaces_toList_loop list prefix (field # rest) =
     buildIfaces_toList_loop
       (list @ prefix @ Field_Name field @ '' '' @ Field_Type field) '', '' rest"

definition buildIfaces_toList :: "Field list \<Rightarrow> string" where
  "buildIfaces_toList flds = buildIfaces_toList_loop [] [] flds"

definition wrongArgument :: "error + tval" where
  "wrongArgument = Inl (TemplateError ''wrong type for value'')"

definition buildIfaces_FuncMap :: FuncMap where
  "buildIfaces_FuncMap =
     [(''toList'', \<lambda>v. case v of VFields flds \<Rightarrow> Inr (VString (buildIfaces_toList flds))
                              | _ \<Rightarrow> wrongArgument)]"

fun buildIfaces_loop :: "Struct list \<Rightarrow> string list \<Rightarrow> error + string list" where
  "buildIfaces_loop [] ifaces = Inr ifaces"
| "buildIfaces_loop (st # sts) ifaces =
     (case Execute buildIfaces_FuncMap iface (VStruct st) of
        (buf, Some err) \<Rightarrow> Inl err
      | (buf, None) \<Rightarrow> buildIfaces_loop sts (ifaces @ [buf]))"

definition buildIfaces :: "Package \<Rightarrow> error + string list" where
  "buildIfaces pkg = buildIfaces_loop (Package_Structs pkg) []"

section \<open>Implementation renderer\<close>

fun pkgContainsType_loop :: "Struct list \<Rightarrow> string \<Rightarrow> bool" where
  "pkgContainsType_loop [] typ = False"
| "pkgContainsType_loop (st # sts) typ =
     (if Struct_Name st = typ then True else pkgContainsType_loop sts typ)"

definition pkgContainsType :: "Package \<Rightarrow> string \<Rightarrow> bool" where
  "pkgContainsType pkg typ = pkgContainsType_loop (Package_Structs pkg) typ"

definition maybeAddIfacePkg :: "Package \<Rightarrow> string \<Rightarrow> error + string" where
  "maybeAddIfacePkg pkg typ =
     (case index typ 0 of
        Inl e \<Rightarrow> Inl e
      | Inr c \<Rightarrow>
          (let isPtr = (c = CHR ''*'');
               typ1 = (if isPtr then drop 1 typ else typ);
               typ2 = (if pkgContainsType pkg typ1 then Package_Name pkg @ ''iface.'' @ typ1
                       else typ1)
           in Inr (if isPtr then ''*'' @ typ2 else typ2)))"

text \<open>The template \<^verbatim>\<open>impl\<close> of \<^verbatim>\<open>buildImpls\<close>.\<close>

definition impl :: "node list" where
  "impl =
     [Text ''\<newline>type '', Action (Fld Dot ''StructName''), Text '' struct {\<newline>    parent *'',
      Action (Fld Dot ''PkgName''), Text ''.'', Action (Fld Dot ''StructName''),
      Text ''\<newline>}\<newline>\<newline>'',
      Range ''field'' (Fld Dot ''Fields'')
        [Text ''\<newline>func (x *'', Action (Fld Root ''StructName''), Text '')'',
         Action (Fld (Var ''field'') ''Name''), Text ''() ('',
         Action (Call ''maybeAddIfacePkg'' (Fld (Var ''field'') ''Type'')),
         Text '') {\<newline>    return x.parent.'', Action (Fld (Var ''field'') ''Name''),
         Text ''\<newline>}\<newline>''],
      Text ''\<newline>\<newline>'',
      Range ''method'' (Fld Dot ''Methods'')
        [Text ''\<newline>func (x *'', Action (Fld Root ''StructName''), Text '') '',
         Action (Fld Dot ''Name''), Text ''('',
         Action (Call ''toList'' (Fld (Var ''method'') ''Params'')), Text '') ('',
         Action (Call ''toList'' (Fld (Var ''method'') ''Results'')),
         Text '') {\<newline>    return x.parent.'', Action (Fld (Var ''method'') ''Name''),
         Text ''('', Action (Call ''argList'' (Fld (Var ''method'') ''Params'')),
         Text '')\<newline>}\<newline>''],
      Text ''\<newline>'']"

fun buildImpls_toList_loop :: "Package \<Rightarrow> string \<Rightarrow> string \<Rightarrow> Field list \<Rightarrow> error + string" where
  "buildImpls_toList_loop pkg list prefix [] = Inr list"
| "buildImpls_toList_loop pkg list prefix (field # rest) =
     (case maybeAddIfacePkg pkg (Field_Type field) of
        Inl e \<Rightarrow> Inl e
      | Inr typ \<Rightarrow>
          buildImpls_toList_loop pkg (list @ prefix @ Field_Name field @ '' '' @ typ) '', '' rest)"

definition buildImpls_toList :: "Package \<Rightarrow> Field list \<Rightarrow> error + string" where
  "buildImpls_toList pkg flds = buildImpls_toList_loop pkg [] [] flds"

fun buildImpls_argList_loop :: "string \<Rightarrow> string \<Rightarrow> Field list \<Rightarrow> string" where
  "buildImpls_argList_loop args prefix [] = args"
| "buildImpls_argList_loop args prefix (field # rest) =
     buildImpls_argList_loop (args @ prefix @ Field_Name field) '', '' rest"

definition buildImpls_argList :: "Field list \<Rightarrow> string" where
  "buildImpls_argList flds = buildImpls_argList_loop [] [] flds"

definition buildImpls_FuncMap :: "Package \<Rightarrow> FuncMap" where
  "buildImpls_FuncMap pkg =
     [(''toList'', \<lambda>v. case v of VFields flds \<Rightarrow> map_sum id VString (buildImpls_toList pkg flds)
                              | _ \<Rightarrow> wrongArgument),
      (''argList'', \<lambda>v. case v of VFields flds \<Rightarrow> Inr (VString (buildImpls_argList flds))
                               | _ \<Rightarrow> wrongArgument),
      (''maybeAddIfacePkg'', \<lambda>v. case v of VString typ \<Rightarrow> map_sum id VString (maybeAddIfacePkg pkg typ)
                                        | _ \<Rightarrow> wrongArgument)]"

fun buildImpls_loop :: "Package \<Rightarrow> Struct list \<Rightarrow> string list \<Rightarrow> error + string list" where
  "buildImpls_loop pkg [] impls = Inr impls"
| "buildImpls_loop pkg (st # sts) impls =
     (case Execute (buildImpls_FuncMap pkg) impl
             (VImplData \<lparr>implData_PkgName = Package_Name pkg,
                         implData_StructName = Struct_Name st,
                         implData_Fields = Struct_Fields st,
                         implData_Methods = Struct_Methods st\<rparr>) of
        (buf, Some err) \<Rightarrow> Inl err
      | (buf, None) \<Rightarrow> buildImpls_loop pkg sts (impls @ [buf]))"

definition buildImpls :: "Package \<Rightarrow> error + string list" where
  "buildImpls pkg = buildImpls_loop pkg (Package_Structs pkg) []"

section \<open>Code generation\<close>

text \<open>The templates \<^verbatim>\<open>ifaceTmpl\<close> and \<^verbatim>\<open>implTmpl\<close> of \<^verbatim>\<open>genCode\<close>.\<close>

definition ifaceTmpl :: "node list" where
  "ifaceTmpl =
     [Text ''\<newline>// Auto generated code DO NOT EDIT\<newline>package '', Action (Fld Dot ''Name''),
      Text ''iface\<newline>\<newline>'',
      Range ''iface'' (Fld Dot ''Interfaces'')
        [Text ''\<newline>'', Action (Var ''iface''), Text ''\<newline>''],
      Text ''\<newline>'']"

definition implTmpl :: "node list" where
  "implTmpl =
     [Text ''\<newline>// Auto generated code DO NOT EDIT\<newline>package '', Action (Fld Dot ''Name''),
      Text (''\<newline>\<newline>import '' @ [CHR 0x22]), Action (Fld Dot ''ImportPath''),
      Text ([CHR 0x22] @ ''\<newline>import '' @ [CHR 0x22]), Action (Fld Dot ''BasePkg''), Text ''/'',
      Action (Fld Dot ''Name''), Text (''iface'' @ [CHR 0x22] @ ''\<newline>\<newline>''),
      Range ''impl'' (Fld Dot ''Implementations'')
        [Text ''\<newline>'', Action (Var ''impl''), Text ''\<newline>''],
      Text ''\<newline>'']"

text \<open>
  The loop of \<^verbatim>\<open>genCode\<close> over the packages. The templates are constants that parse, so
  \<^verbatim>\<open>Parse\<close> returns no error. The error of the two calls of \<^verbatim>\<open>tmpl.Execute\<close> is assigned
  to \<open>err\<close> and overwritten by the next statement without being read: the buffer is used
  as it is.
\<close>

fun genCode_loop ::
  "env \<Rightarrow> string \<Rightarrow> (string \<times> Package) list \<Rightarrow> string gomap \<times> string gomap
     \<Rightarrow> error + string gomap \<times> string gomap" where
  "genCode_loop E basePkg [] maps = Inr maps"
| "genCode_loop E basePkg ((subpkgName, subpkg) # rest) maps =
     (case buildIfaces subpkg of
        Inl e \<Rightarrow> Inl e
      | Inr ifaces \<Rightarrow>
          (let ifacePkgBuf =
                 fst (Execute [] ifaceTmpl
                        (VIfacePkgData \<lparr>ifacePkgData_Name = subpkgName,
                                         ifacePkgData_Interfaces = ifaces\<rparr>))
           in case formatSource E ifacePkgBuf of
                Inl err \<Rightarrow> Inl (FormatError err)
              | Inr ifacePkg \<Rightarrow>
                  (case buildImpls subpkg of
                     Inl e \<Rightarrow> Inl e
                   | Inr impls \<Rightarrow>
                       (let implPkgBuf =
                              fst (Execute [] implTmpl
                                     (VImplPkgData
                                        \<lparr>implPkgData_Name = subpkgName,
                                         implPkgData_Implementations = impls,
                                         implPkgData_ImportPath = Package_ImportPath subpkg,
                                         implPkgData_BasePkg = basePkg\<rparr>))
                        in case formatSource E implPkgBuf of
                             Inl err \<Rightarrow> Inl (FormatError err)
                           | Inr implPkg \<Rightarrow>
                               genCode_loop E basePkg rest
                                 (AList.update (subpkgName @ ''iface'') ifacePkg (fst maps),
                                  AList.update subpkgName implPkg (snd maps))))))"

definition genCode ::
  "env \<Rightarrow> schedule \<Rightarrow> string \<Rightarrow> string \<Rightarrow> error + string gomap \<times> string gomap" where
  "genCode E sched pkgPath basePkg =
     (case getSubpackages E sched pkgPath of
        Inl e \<Rightarrow> Inl e
      | Inr subpkgs \<Rightarrow>
          genCode_loop E basePkg (rangeMap sched GenCodeSubpkgs [] subpkgs) ([], []))"

section \<open>Writer and \<^verbatim>\<open>main\<close>\<close>

text \<open>
  What a run of the program leaves behind: the text on standard error, the exit status,
  and the directories made and files written, in order. A panic ends the run with the
  run-time's report on standard error (of which only the first line is kept here) and
  exit status 2.
\<close>

record outcome =
  Stderr :: string
  ExitStatus :: nat
  Effects :: "(string \<times> string option) list"
    \<comment> \<open>\<open>(dir, None)\<close> for a directory made, \<open>(file, Some text)\<close> for a file written\<close>

fun main_write ::
  "env \<Rightarrow> string \<Rightarrow> (string \<times> string) list \<Rightarrow> (string \<times> string option) list
     \<Rightarrow> (string \<times> string option) list \<times> error option" where
  "main_write E out [] done = (done, None)"
| "main_write E out ((pkgName, pkg) # rest) done =
     (let pkgPath = pathJoin E [out, pkgName] in
      case MkdirAll E pkgPath of
        Some err \<Rightarrow> (done, Some (WriteError err))
      | None \<Rightarrow>
          (let pkgFile = pathJoin E [pkgPath, pkgName @ ''.go''] in
           case WriteFile E pkgFile pkg of
             Some err \<Rightarrow> (done @ [(pkgPath, None)], Some (WriteError err))
           | None \<Rightarrow>
               main_write E out rest (done @ [(pkgPath, None), (pkgFile, Some pkg)])))"

text \<open>
  The statements of \<^verbatim>\<open>main\<close> after the check of the flag \<^verbatim>\<open>-input\<close>, up to the first
  error it meets: what has been written by then, and that error.
\<close>

definition main_run ::
  "env \<Rightarrow> schedule \<Rightarrow> string \<Rightarrow> string \<Rightarrow> (string \<times> string option) list \<times> error option" where
  "main_run E sched out inp =
     (case filepathAbs E out of
        Inl err \<Rightarrow> ([], Some (PathError err))
      | Inr absOut \<Rightarrow>
          (let basePkg = TrimPrefix absOut (pathJoin E [GOPATH E, ''src''] @ ''/'') in
           case genCode E sched inp basePkg of
             Inl err \<Rightarrow> ([], Some err)
           | Inr (ifacePkgs, implPkgs) \<Rightarrow>
               (case main_write E absOut (rangeMap sched MainIfacePkgs [] ifacePkgs) [] of
                  (done, Some err) \<Rightarrow> (done, Some err)
                | (done, None) \<Rightarrow>
                    main_write E absOut (rangeMap sched MainImplPkgs [] implPkgs) done)))"

text \<open>
  Every error is handled by the same two statements,
  \<^verbatim>\<open>fmt.Fprintf(os.Stderr, err.Error())\<close> and \<^verbatim>\<open>os.Exit(1)\<close>: the message is the format
  string of \<^verbatim>\<open>Fprintf\<close>.
\<close>

definition main :: "env \<Rightarrow> schedule \<Rightarrow> string \<Rightarrow> string \<Rightarrow> outcome" where
  "main E sched out inp =
     (if inp = [] then
        \<lparr>Stderr = ''Require a package name\<newline>'', ExitStatus = 1, Effects = []\<rparr>
      else
        case main_run E sched out inp of
          (done, None) \<Rightarrow> \<lparr>Stderr = [], ExitStatus = 0, Effects = done\<rparr>
        | (done, Some (Panic m)) \<Rightarrow> \<lparr>Stderr = ''panic: '' @ m, ExitStatus = 2, Effects = done\<rparr>
        | (done, Some err) \<Rightarrow>
            \<lparr>Stderr = Fprintf E (errorMsg err), ExitStatus = 1, Effects = done\<rparr>)"

section \<open>What the renderers are to produce\<close>

text \<open>
  The text the specification describes, written out directly: a parameter list is the
  comma-separated list of \<open>name type\<close>, an argument list the comma-separated list of the
  names; an interface declaration lists one accessor signature \<open>F() T\<close> for each field and
  then the signature of each method; a wrapper declaration is a struct that embeds a
  pointer \<open>parent\<close> to the original, with one accessor for each field that returns the
  field of \<open>parent\<close> and one method for each method that returns the call of the same
  method of \<open>parent\<close> on the wrapper's parameters.
\<close>

fun commaSep :: "string list \<Rightarrow> string" where
  "commaSep [] = []"
| "commaSep [x] = x"
| "commaSep (x # y # ys) = x @ '', '' @ commaSep (y # ys)"

definition fieldDecl :: "Field \<Rightarrow> string" where
  "fieldDecl f = Field_Name f @ '' '' @ Field_Type f"

definition paramList :: "Field list \<Rightarrow> string" where
  "paramList flds = commaSep (map fieldDecl flds)"


definition accessorSignature :: "Field \<Rightarrow> string" where
  "accessorSignature f = Field_Name f @ ''() '' @ Field_Type f"

definition methodSignature :: "Method \<Rightarrow> string" where
  "methodSignature m =
     Method_Name m @ ''('' @ paramList (Method_Params m) @ '') (''
       @ paramList (Method_Results m) @ '')''"

definition ifaceAccessor :: "Field \<Rightarrow> string" where
  "ifaceAccessor f = ''\<newline>    '' @ accessorSignature f @ ''\<newline>''"

definition ifaceMethod :: "Method \<Rightarrow> string" where
  "ifaceMethod m = ''\<newline>    '' @ methodSignature m @ ''\<newline>''"

definition ifaceDecl :: "Struct \<Rightarrow> string" where
  "ifaceDecl st =
     ''\<newline>type '' @ Struct_Name st @ '' interface {\<newline>''
       @ concat (map ifaceAccessor (Struct_Fields st))
       @ ''\<newline>\<newline>''
       @ concat (map ifaceMethod (Struct_Methods st))
       @ ''\<newline>}\<newline>''"













text \<open>A declaration of a field list cut down to its first name.\<close>

definition firstNameOnly :: "ast_Field \<Rightarrow> ast_Field" where
  "firstNameOnly af = af\<lparr>Names := take 1 (Names af)\<rparr>"

definition firstNameDecl :: "ast_Decl \<Rightarrow> ast_Decl" where
  "firstNameDecl d =
     (case d of
        OtherDecl \<Rightarrow> OtherDecl
      | FuncDecl fd \<Rightarrow>
          FuncDecl (fd\<lparr>Params := map firstNameOnly (Params fd),
                       Results := map_option (map firstNameOnly) (Results fd)\<rparr>))"

definition firstNameStruct :: "ast_StructType \<Rightarrow> ast_StructType" where
  "firstNameStruct st = st\<lparr>StructType_Fields := map firstNameOnly (StructType_Fields st)\<rparr>"

definition firstNameFile :: "ast_File \<Rightarrow> ast_File" where
  "firstNameFile a =
     a\<lparr>Decls := map firstNameDecl (Decls a), StructTypes := map firstNameStruct (StructTypes a)\<rparr>"

definition firstNamePackage :: "ast_Package \<Rightarrow> ast_Package" where
  "firstNamePackage pkg = pkg\<lparr>Files := map (\<lambda>(n, a). (n, firstNameFile a)) (Files pkg)\<rparr>"




section \<open>Concrete packages\<close>

text \<open>
  An environment in which the directory \<^verbatim>\<open>/go/src/p\<close> holds the given files, each with
  its text and the tree the parser makes of it. \<^verbatim>\<open>path.Join\<close> puts a slash between the
  elements (they are clean already), \<^verbatim>\<open>ioutil.ReadFile\<close> returns the text in a buffer of
  512 bytes (the capacity it allocates for a small file; the texts here are shorter),
  the second parse gives the file set of the text (no text here holds a line directive),
  \<^verbatim>\<open>format.Source\<close> returns the text as it is (it changes the layout of a text, not the
  order of its declarations), the output path is absolute, every write succeeds, and no
  name begins outside ASCII. \<open>printfNoOperands\<close> is what \<^verbatim>\<open>fmt.Fprintf\<close> writes for a format
  without operands, flags, width or precision: text is copied, \<^verbatim>\<open>%%\<close> gives \<^verbatim>\<open>%\<close>, a verb
  finds its operand missing, and a \<^verbatim>\<open>%\<close> at the end has no verb.
\<close>

fun joinSlash :: "string list \<Rightarrow> string" where
  "joinSlash [] = []"
| "joinSlash [x] = x"
| "joinSlash (x # y # ys) = x @ ''/'' @ joinSlash (y # ys)"

fun printfNoOperands :: "string \<Rightarrow> string" where
  "printfNoOperands [] = []"
| "printfNoOperands [c] = (if c = CHR ''%'' then ''%!(NOVERB)'' else [c])"
| "printfNoOperands (c # d # cs) =
     (if c \<noteq> CHR ''%'' then c # printfNoOperands (d # cs)
      else if d = CHR ''%'' then CHR ''%'' # printfNoOperands cs
      else ''%!'' @ [d] @ ''(MISSING)'' @ printfNoOperands cs)"

definition readBytes :: "string \<Rightarrow> bytes" where
  "readBytes s = \<lparr>Contents = s, Spare = replicate (512 - length s) (CHR 0x00)\<rparr>"

definition dirEnv :: "(string \<times> string \<times> ast_File) list \<Rightarrow> env" where
  "dirEnv files =
     \<lparr>GOPATH = ''/go'',
      pathJoin = joinSlash,
      ReadDir = (\<lambda>p. if p = ''/go/src/p'' then Inr (map (\<lambda>(n, s, a). (n, False)) files)
                     else Inl ''no such file or directory''),
      ParseFileAST = (\<lambda>f. case map_of (map (\<lambda>(n, s, a). (''/go/src/p/'' @ n, a)) files) f of
                            None \<Rightarrow> Inl ''no such file or directory''
                          | Some a \<Rightarrow> Inr a),
      ParseFile = (\<lambda>f. case map_of (map (\<lambda>(n, s, a). (''/go/src/p/'' @ n, s)) files) f of
                         None \<Rightarrow> Inl ''no such file or directory''
                       | Some s \<Rightarrow> Inr (plainFileSet s)),
      ReadFile = (\<lambda>f. case map_of (map (\<lambda>(n, s, a). (''/go/src/p/'' @ n, s)) files) f of
                        None \<Rightarrow> Inl ''no such file or directory''
                      | Some s \<Rightarrow> Inr (readBytes s)),
      formatSource = Inr,
      filepathAbs = Inr,
      MkdirAll = (\<lambda>p. None),
      WriteFile = (\<lambda>p s. None),
      Fprintf = printfNoOperands,
      unicodeIsUpper = (\<lambda>name. False)\<rparr>"

text \<open>Two schedules: every map is visited in the order of its keys, or in the reverse.\<close>

definition inOrder :: schedule where
  "inOrder st ctx ks = ks"

definition reversed :: schedule where
  "reversed st ctx ks = rev ks"

text \<open>
  A file with an unexported struct that has an exported method:
  \<^verbatim>\<open>
  package p

  type foo struct{}

  func (f *foo) Bar() {}
  \<close>
\<close>

definition fooSrc :: string where
  "fooSrc = ''package p\<newline>\<newline>type foo struct{}\<newline>\<newline>func (f *foo) Bar() {}\<newline>''"

definition fooFile :: ast_File where
  "fooFile =
     \<lparr>File_Name = ''p'',
      Decls = [OtherDecl,
               FuncDecl \<lparr>Recv = Some [\<lparr>Names = [''f''], Type_Pos = 39, Type_End = 43\<rparr>],
                         FuncDecl_Name = ''Bar'', Params = [], Results = None\<rparr>],
      StructTypes = [\<lparr>StructType_Pos = 21, StructType_Fields = []\<rparr>]\<rparr>"

definition fooPkg :: ast_Package where
  "fooPkg = \<lparr>ast_Package_Name = ''p'', Files = [(''/go/src/p/a.go'', fooFile)]\<rparr>"










text \<open>
  A file whose field, parameter and result declarations list two names each:
  \<^verbatim>\<open>
  package p

  type T struct{ A, B int }

  func (t T) Add(x, y int) (sum, carry int) { return 0, 0 }
  \<close>
\<close>

definition pairSrc :: string where
  "pairSrc = ''package p\<newline>\<newline>type T struct{ A, B int }\<newline>\<newline>'' @
             ''func (t T) Add(x, y int) (sum, carry int) { return 0, 0 }\<newline>''"

definition pairFields :: "ast_Field list" where
  "pairFields = [\<lparr>Names = [''A'', ''B''], Type_Pos = 32, Type_End = 35\<rparr>]"

definition pairParams :: "ast_Field list" where
  "pairParams = [\<lparr>Names = [''x'', ''y''], Type_Pos = 59, Type_End = 62\<rparr>]"

definition pairResults :: "ast_Field list" where
  "pairResults = [\<lparr>Names = [''sum'', ''carry''], Type_Pos = 76, Type_End = 79\<rparr>]"

definition pairFile :: ast_File where
  "pairFile =
     \<lparr>File_Name = ''p'',
      Decls = [OtherDecl,
               FuncDecl \<lparr>Recv = Some [\<lparr>Names = [''t''], Type_Pos = 47, Type_End = 48\<rparr>],
                         FuncDecl_Name = ''Add'', Params = pairParams,
                         Results = Some pairResults\<rparr>],
      StructTypes = [\<lparr>StructType_Pos = 19, StructType_Fields = pairFields\<rparr>]\<rparr>"

definition pairPkg :: ast_Package where
  "pairPkg = \<lparr>ast_Package_Name = ''p'', Files = [(''/go/src/p/a.go'', pairFile)]\<rparr>"

text \<open>
  A file whose struct refers to itself in a field and in a parameter:
  \<^verbatim>\<open>
  package p

  type Foo struct{ Next *Foo }

  func (x *Foo) Bar(f Foo) error { return nil }
  \<close>
  and the shape that is extracted from it.
\<close>

definition linkSrc :: string where
  "linkSrc = ''package p\<newline>\<newline>type Foo struct{ Next *Foo }\<newline>\<newline>'' @
             ''func (x *Foo) Bar(f Foo) error { return nil }\<newline>''"

definition linkFile :: ast_File where
  "linkFile =
     \<lparr>File_Name = ''p'',
      Decls = [OtherDecl,
               FuncDecl \<lparr>Recv = Some [\<lparr>Names = [''x''], Type_Pos = 50, Type_End = 54\<rparr>],
                         FuncDecl_Name = ''Bar'',
                         Params = [\<lparr>Names = [''f''], Type_Pos = 62, Type_End = 65\<rparr>],
                         Results = Some [\<lparr>Names = [], Type_Pos = 67, Type_End = 72\<rparr>]\<rparr>],
      StructTypes = [\<lparr>StructType_Pos = 21,
                      StructType_Fields = [\<lparr>Names = [''Next''], Type_Pos = 34, Type_End = 38\<rparr>]\<rparr>]\<rparr>"




section \<open>The renderers in closed form\<close>

lemma commaSep_Cons:
  "commaSep (x # ys) = (if ys = [] then x else x @ '', '' @ commaSep ys)"
  by (cases ys) simp_all

lemma buildIfaces_toList_loop_closed:
  "buildIfaces_toList_loop list prefix flds =
     (if flds = [] then list else list @ prefix @ paramList flds)"
proof (induction flds arbitrary: list prefix)
  case Nil
  show ?case by simp
next
  case (Cons f fs)
  show ?case
    by (simp add: Cons.IH commaSep_Cons paramList_def fieldDecl_def [abs_def])
qed

lemma buildIfaces_toList_closed: "buildIfaces_toList flds = paramList flds"
  by (simp add: buildIfaces_toList_def buildIfaces_toList_loop_closed paramList_def)



lemma iface_FuncMap_toList:
  "map_of buildIfaces_FuncMap ''toList'' =
     Some (\<lambda>v. case v of VFields flds \<Rightarrow> Inr (VString (buildIfaces_toList flds))
                   | _ \<Rightarrow> wrongArgument)"
  by (simp add: buildIfaces_FuncMap_def)

lemma execRange_ifaceAccessors:
  "execRange buildIfaces_FuncMap root vars ''field''
     [Text ''\<newline>    '', Action (Fld (Var ''field'') ''Name''), Text ''() '',
      Action (Fld (Var ''field'') ''Type''), Text ''\<newline>''] (map VField flds)
   = (concat (map ifaceAccessor flds), None)"
  by (induction flds) (simp_all add: ifaceAccessor_def accessorSignature_def)

lemma execRange_ifaceMethods:
  "execRange buildIfaces_FuncMap root vars ''method''
     [Text ''\<newline>    '', Action (Fld (Var ''method'') ''Name''), Text ''('',
      Action (Call ''toList'' (Fld (Var ''method'') ''Params'')), Text '') ('',
      Action (Call ''toList'' (Fld (Var ''method'') ''Results'')), Text '')\<newline>'']
     (map VMethod ms)
   = (concat (map ifaceMethod ms), None)"
  by (induction ms)
     (simp_all add: ifaceMethod_def methodSignature_def iface_FuncMap_toList
        buildIfaces_toList_closed)

lemma Execute_iface: "Execute buildIfaces_FuncMap iface (VStruct st) = (ifaceDecl st, None)"
  by (simp add: Execute_def iface_def execRange_ifaceAccessors execRange_ifaceMethods
      ifaceDecl_def)

lemma buildIfaces_loop_closed: "buildIfaces_loop sts acc = Inr (acc @ map ifaceDecl sts)"
  by (induction sts arbitrary: acc) (simp_all add: Execute_iface)

lemma buildIfaces_closed: "buildIfaces pkg = Inr (map ifaceDecl (Package_Structs pkg))"
  by (simp add: buildIfaces_def buildIfaces_loop_closed)














section \<open>Lines and tokens\<close>




lemma Split_append_sep:
  "c \<notin> set a \<Longrightarrow> Split (a @ c # rest) c = a # Split rest c"
  by (induction a) auto




lemma Split_type_line:
  "CHR '' '' \<notin> set name \<Longrightarrow>
   index (Split (''type '' @ name @ '' struct'' @ rest) (CHR '' '')) 1 = Inr name"
  by (simp add: Split_append_sep index_def)



lemma getMethodFields_firstNameOnly:
  "getMethodFields src (map firstNameOnly afs) = getMethodFields src afs"
  by (induction afs) (auto simp: firstNameOnly_def Let_def split: sum.splits list.splits)

lemma getFields_exported_firstNameOnly:
  "getFields_exported E src (map firstNameOnly afs) = getFields_exported E src afs"
  by (induction afs) (auto simp: firstNameOnly_def Let_def split: sum.splits list.splits)







section \<open>Declarations with several names\<close>

lemma getMethods_decl_firstName:
  "getMethods_decl E src (firstNameDecl d) m = getMethods_decl E src d m"
  by (cases d)
     (auto simp: getMethods_decl_def GetReceiverTypeName_def firstNameDecl_def
        getMethodFields_firstNameOnly split: option.splits sum.splits)

lemma getMethods_decls_firstName:
  "getMethods_decls E f (map firstNameDecl ds) m = getMethods_decls E f ds m"
  by (induction ds arbitrary: m) (auto simp: getMethods_decl_firstName split: sum.splits)

lemma getMethods_files_firstName:
  "getMethods_files E (map (\<lambda>(n, a). (n, firstNameFile a)) fs) m = getMethods_files E fs m"
  by (induction fs arbitrary: m)
     (auto simp: getMethods_decls_firstName firstNameFile_def split: sum.splits)

lemma rangeMap_map:
  "rangeMap sched st ctx (map (\<lambda>(k, v). (k, f v)) m) = map (\<lambda>(k, v). (k, f v)) (rangeMap sched st ctx m)"
proof -
  have keys: "map (fst \<circ> (\<lambda>(k, v). (k, f v))) m = map fst m" by (induction m) auto
  have look: "map_of (map (\<lambda>(k, v). (k, f v)) m) k = map_option f (map_of m k)" for k
    by (induction m) auto
  have "concat (map (\<lambda>k. case map_of (map (\<lambda>(k, v). (k, f v)) m) k of None \<Rightarrow> [] | Some v \<Rightarrow> [(k, v)]) ks)
        = map (\<lambda>(k, v). (k, f v)) (concat (map (\<lambda>k. case map_of m k of None \<Rightarrow> [] | Some v \<Rightarrow> [(k, v)]) ks))" for ks
    by (induction ks) (auto simp: look split: option.splits)
  then show ?thesis by (simp add: rangeMap_def keys)
qed

lemma getMethods_firstName: "getMethods E sched (firstNamePackage pkg) = getMethods E sched pkg"
  by (simp add: getMethods_def firstNamePackage_def rangeMap_map getMethods_files_firstName)

lemma getFields_node_firstName:
  "getFields_node E src fset (firstNameStruct st) m = getFields_node E src fset st m"
proof -
  have n: "getStructName src fset (firstNameStruct st) = getStructName src fset st"
    by (simp add: getStructName_def firstNameStruct_def)
  have f: "StructType_Fields (firstNameStruct st) = map firstNameOnly (StructType_Fields st)"
    by (simp add: firstNameStruct_def)
  show ?thesis
    unfolding getFields_node_def n f getFields_exported_firstNameOnly ..
qed

lemma getFields_inspect_firstName:
  "getFields_inspect E src fset (map firstNameStruct sts) m = getFields_inspect E src fset sts m"
  by (induction sts arbitrary: m) (auto simp: getFields_node_firstName split: sum.splits)

lemma getFields_files_firstName:
  "getFields_files E (map (\<lambda>(n, a). (n, firstNameFile a)) fs) m = getFields_files E fs m"
  by (induction fs arbitrary: m)
     (auto simp: getFields_inspect_firstName firstNameFile_def split: sum.splits)

lemma getFields_firstName: "getFields E sched (firstNamePackage pkg) = getFields E sched pkg"
  by (simp add: getFields_def firstNamePackage_def rangeMap_map getFields_files_firstName)

lemma getStructs_firstName: "getStructs E sched (firstNamePackage pkg) = getStructs E sched pkg"
proof -
  have "ast_Package_Name (firstNamePackage pkg) = ast_Package_Name pkg"
    by (simp add: firstNamePackage_def)
  then show ?thesis
    by (simp add: getStructs_def getMethods_firstName getFields_firstName cong: sum.case_cong)
qed

section \<open>Plain types\<close>







section \<open>The claims\<close>

text \<open>
  C5. For every extracted struct the interface renderer emits exactly one interface
  declaration, in the order of the structs: it is named after the struct and holds one
  accessor signature \<open>F() T\<close> for each extracted field \<open>F\<close> of type \<open>T\<close>, followed by one
  signature for each extracted method with the parameter list and the result list of
  that method. Rendering never fails.
\<close>

theorem buildIfaces_one_interface_per_struct:
  "buildIfaces pkg = Inr (map ifaceDecl (Package_Structs pkg))"
  by (rule buildIfaces_closed)

text \<open>
  C3 asks that no unexported struct has a shape. \<^verbatim>\<open>getMethods\<close> tests the name of the
  method only, not the name of the receiver type as \<^verbatim>\<open>getFields\<close> does for the struct:
  the unexported struct \<open>foo\<close> with the exported method \<open>Bar\<close> gets a shape.
\<close>

theorem unexported_struct_gets_a_shape:
  "parsePkg (dirEnv [(''a.go'', fooSrc, fooFile)]) ''p'' = ([(''p'', fooPkg)], None)
   \<and> getStructs (dirEnv [(''a.go'', fooSrc, fooFile)]) inOrder fooPkg =
       Inr [\<lparr>Struct_Name = ''foo'',
             Struct_Methods = [\<lparr>Method_Name = ''Bar'', Method_Params = [], Method_Results = []\<rparr>],
             Struct_Fields = []\<rparr>]
   \<and> \<not> IsExported (dirEnv [(''a.go'', fooSrc, fooFile)]) ''foo''"
  by (simp add: dirEnv_def inOrder_def parsePkg_def ParseDir_def ParseDir_entry_def
      HasSuffix_def HasPrefix_def rangeMap_def rangeKeys_def getMethods_def getFields_def
      getStructs_def getMethods_decl_def GetReceiverTypeName_def slice_def index_def
      IsExported_def getFields_node_def getStructName_def Position_Line_def plainFileSet_def
      lineNumber_def readBytes_def
      Let_def fooPkg_def fooFile_def fooSrc_def)










end
